theory Spec2Isabelle
  imports Main
begin

section \<open>Data model of the chat input (ChatUserInput.tsx)\<close>

text \<open>
  The component keeps an ordered list of mentionables, the key of the mentionable whose
  preview is displayed, and a reference to the rich-text editor. The editor is seen
  through its mention nodes only: \<open>$nodesOfType(MentionNode)\<close> is a list of nodes, each
  carrying a serialized mentionable. A batch of mutations is the list of the values of
  the \<open>NodeMutations\<close> map, in the order \<open>forEach\<close> visits them. In the state,
  \<open>editor\<close> is \<open>None\<close> when \<open>editorRef.current\<close> is null.
\<close>

datatype TFile = TFile (path: string)

datatype MentionableImage = MentionableImage (name: string) (data: string)

text \<open>
  Modelled from the spec: the union \<open>Mentionable\<close> is declared in types/mentionable, which
  is not part of the sources at hand. The variants and fields below are the ones the
  component reads: \<open>type\<close>, \<open>file\<close> (tested for null on the file and current-file
  variants), \<open>startLine\<close> and \<open>endLine\<close> of a block, \<open>name\<close> and \<open>data\<close> of an
  image. Every other variant is \<open>MentionableOther\<close> with its type tag.
\<close>

datatype Mentionable =
    MentionableFile "TFile option"
  | MentionableCurrentFile "TFile option"
  | MentionableBlock TFile int int
  | MentionableImg MentionableImage
  | MentionableOther string

fun mentionable_type :: "Mentionable \<Rightarrow> string" where
  "mentionable_type (MentionableFile f) = ''file''"
| "mentionable_type (MentionableCurrentFile f) = ''current-file''"
| "mentionable_type (MentionableBlock f s e) = ''block''"
| "mentionable_type (MentionableImg i) = ''image''"
| "mentionable_type (MentionableOther t) = t"

fun file_of :: "Mentionable \<Rightarrow> TFile option" where
  "file_of (MentionableFile f) = f"
| "file_of (MentionableCurrentFile f) = f"
| "file_of (MentionableBlock f s e) = Some f"
| "file_of (MentionableImg i) = None"
| "file_of (MentionableOther t) = None"

fun startLine :: "Mentionable \<Rightarrow> int option" where
  "startLine (MentionableBlock f s e) = Some s"
| "startLine m = None"

datatype 's MentionNode = MentionNode (getMentionable: 's)

datatype NodeMutation = Created | Updated | Destroyed

datatype 's Mutation = Mutation (mutation: NodeMutation) (node: "'s MentionNode")

record 's state =
  mentionables :: "Mentionable list"
  displayedMentionableKey :: "string option"
  editor :: "'s MentionNode list option"

section \<open>Mention reconciler\<close>

text \<open>
  The helpers \<open>getMentionableKey\<close>, \<open>serializeMentionable\<close> and
  \<open>deserializeMentionable\<close> live in utils/chat/mentionable; the handlers take them as
  the parameters \<open>key\<close>, \<open>ser\<close> and \<open>deser\<close> (a failed deserialization is \<open>None\<close>).

  \<open>nodeWithSameMentionable\<close> is the result of \<open>editorRef.current?.read\<close>: nothing
  without an editor, and otherwise the first mention node of the current editor state
  whose mentionable has the key. \<open>mutation_step\<close> is the body of the \<open>forEach\<close> over
  the batch, on the pair of \<open>destroyedMentionableKeys\<close> and \<open>addedMentionables\<close>;
  \<open>collect_mutations\<close> is the loop, from two empty arrays.
  \<open>handleMentionNodeMutation\<close> then replaces the list and, when an addition was
  staged, the displayed key.
\<close>

definition nodeWithSameMentionable ::
  "('s \<Rightarrow> string) \<Rightarrow> 's MentionNode list option \<Rightarrow> string \<Rightarrow> 's MentionNode option" where
  "nodeWithSameMentionable key ed mentionableKey =
     (case ed of
        None \<Rightarrow> None
      | Some nodes \<Rightarrow> find (\<lambda>n. key (getMentionable n) = mentionableKey) nodes)"

definition mutation_step ::
  "('s \<Rightarrow> string) \<Rightarrow> (Mentionable \<Rightarrow> 's) \<Rightarrow> 's state \<Rightarrow>
   string list \<times> 's list \<Rightarrow> 's Mutation \<Rightarrow> string list \<times> 's list" where
  "mutation_step key ser st acc mu =
     (let destroyedMentionableKeys = fst acc;
          addedMentionables = snd acc;
          mentionable = getMentionable (node mu);
          mentionableKey = key mentionable
      in if mutation mu = Destroyed then
           (if nodeWithSameMentionable key (editor st) mentionableKey = None
            then (destroyedMentionableKeys @ [mentionableKey], addedMentionables)
            else (destroyedMentionableKeys, addedMentionables))
         else if mutation mu = Created then
           (if list_ex (\<lambda>m. key (ser m) = mentionableKey) (mentionables st)
               \<or> list_ex (\<lambda>m. key m = mentionableKey) addedMentionables
            then (destroyedMentionableKeys, addedMentionables)
            else (destroyedMentionableKeys, addedMentionables @ [mentionable]))
         else (destroyedMentionableKeys, addedMentionables))"

definition collect_mutations ::
  "('s \<Rightarrow> string) \<Rightarrow> (Mentionable \<Rightarrow> 's) \<Rightarrow> 's state \<Rightarrow> 's Mutation list \<Rightarrow>
   string list \<times> 's list" where
  "collect_mutations key ser st mutations = foldl (mutation_step key ser st) ([], []) mutations"

definition handleMentionNodeMutation ::
  "('s \<Rightarrow> string) \<Rightarrow> (Mentionable \<Rightarrow> 's) \<Rightarrow> ('s \<Rightarrow> Mentionable option) \<Rightarrow>
   's state \<Rightarrow> 's Mutation list \<Rightarrow> 's state" where
  "handleMentionNodeMutation key ser deser st mutations =
     (let destroyedMentionableKeys = fst (collect_mutations key ser st mutations);
          addedMentionables = snd (collect_mutations key ser st mutations)
      in st\<lparr> mentionables :=
               filter (\<lambda>m. \<not> List.member destroyedMentionableKeys (key (ser m))) (mentionables st)
               @ List.map_filter deser addedMentionables,
             displayedMentionableKey :=
               (if length addedMentionables > 0
                then Some (key (last addedMentionables))
                else displayedMentionableKey st) \<rparr>)"

section \<open>Manual mentionable operations\<close>

text \<open>
  \<open>handleCreateImageMentionables\<close> keeps the uploaded images whose key no entry of the
  current list has, returns when none is left, and otherwise appends them and displays
  the last.
\<close>

definition handleCreateImageMentionables ::
  "('s \<Rightarrow> string) \<Rightarrow> (Mentionable \<Rightarrow> 's) \<Rightarrow> 's state \<Rightarrow> MentionableImage list \<Rightarrow> 's state" where
  "handleCreateImageMentionables key ser st mentionableImages =
     (let newMentionableImages =
            filter (\<lambda>m. \<not> list_ex (\<lambda>mentionable.
                               key (ser mentionable) = key (ser (MentionableImg m)))
                             (mentionables st))
                   mentionableImages
      in if length newMentionableImages = 0 then st
         else st\<lparr> mentionables := mentionables st @ map MentionableImg newMentionableImages,
                   displayedMentionableKey :=
                     Some (key (ser (MentionableImg (last newMentionableImages)))) \<rparr>)"

text \<open>
  \<open>editorRef.current?.update\<close> does nothing without an editor; with one, every mention
  node whose mentionable has the deleted key is removed.
\<close>

definition handleMentionableDelete ::
  "('s \<Rightarrow> string) \<Rightarrow> (Mentionable \<Rightarrow> 's) \<Rightarrow> 's state \<Rightarrow> Mentionable \<Rightarrow> 's state" where
  "handleMentionableDelete key ser st mentionable =
     (let mentionableKey = key (ser mentionable)
      in st\<lparr> mentionables := filter (\<lambda>m. key (ser m) \<noteq> mentionableKey) (mentionables st),
             editor :=
               (case editor st of
                  None \<Rightarrow> None
                | Some nodes \<Rightarrow>
                    Some (filter (\<lambda>n. \<not> (key (getMentionable n) = mentionableKey)) nodes)) \<rparr>)"

text \<open>
  A click on a badge either calls \<open>openMarkdownFile\<close> (with the path and, for a block,
  the start line) or sets the displayed key.
\<close>

datatype click_effect =
    OpenMarkdownFile string "int option"
  | SetDisplayedMentionableKey string

definition badge_onClick ::
  "('s \<Rightarrow> string) \<Rightarrow> (Mentionable \<Rightarrow> 's) \<Rightarrow> string option \<Rightarrow> Mentionable \<Rightarrow> click_effect" where
  "badge_onClick key ser displayed m =
     (let mentionableKey = key (ser m)
      in case file_of m of
           Some f \<Rightarrow>
             if (mentionable_type m = ''current-file'' \<or> mentionable_type m = ''file''
                 \<or> mentionable_type m = ''block'')
                \<and> Some mentionableKey = displayed
             then OpenMarkdownFile (path f)
                    (if mentionable_type m = ''block'' then startLine m else None)
             else SetDisplayedMentionableKey mentionableKey
         | None \<Rightarrow> SetDisplayedMentionableKey mentionableKey)"

section \<open>Preview resolver\<close>

text \<open>
  \<open>split_newline\<close> is \<open>String.prototype.split\<close> on the newline character,
  \<open>join_newline\<close> is \<open>Array.prototype.join\<close> with it, and \<open>slice\<close> is
  \<open>Array.prototype.slice\<close>: a negative index counts from the end, and both indices are
  clamped to the length of the array.
\<close>

fun split_newline :: "string \<Rightarrow> string list" where
  "split_newline [] = [[]]"
| "split_newline (c # cs) =
     (if c = CHR 0x0A then [] # split_newline cs
      else (case split_newline cs of
              [] \<Rightarrow> [[c]]
            | l # ls \<Rightarrow> (c # l) # ls))"

fun join_newline :: "string list \<Rightarrow> string" where
  "join_newline [] = []"
| "join_newline [l] = l"
| "join_newline (l # ls) = l @ CHR 0x0A # join_newline ls"

definition slice :: "'a list \<Rightarrow> int \<Rightarrow> int \<Rightarrow> 'a list" where
  "slice xs start end' =
     (let len = int (length xs);
          k = (if start < 0 then max (len + start) 0 else min start len);
          final = (if end' < 0 then max (len + end') 0 else min end' len)
      in take (nat (final - k)) (drop (nat k) xs))"

definition displayedMentionable ::
  "('s \<Rightarrow> string) \<Rightarrow> (Mentionable \<Rightarrow> 's) \<Rightarrow> string option \<Rightarrow> Mentionable list \<Rightarrow> Mentionable option" where
  "displayedMentionable key ser displayed ms = find (\<lambda>m. Some (key (ser m)) = displayed) ms"

text \<open>
  \<open>readTFileContent\<close> is the parameter \<open>read\<close>; a read that fails is \<open>None\<close>, and the
  query then has no data. \<open>queryFn\<close> returning null is \<open>None\<close> as well.
\<close>

fun queryFn :: "(TFile \<Rightarrow> string option) \<Rightarrow> Mentionable option \<Rightarrow> string option" where
  "queryFn read None = None"
| "queryFn read (Some (MentionableFile f)) =
     (case f of None \<Rightarrow> None | Some tf \<Rightarrow> read tf)"
| "queryFn read (Some (MentionableCurrentFile f)) =
     (case f of None \<Rightarrow> None | Some tf \<Rightarrow> read tf)"
| "queryFn read (Some (MentionableBlock tf s e)) =
     (case read tf of
        None \<Rightarrow> None
      | Some fileContent \<Rightarrow> Some (join_newline (slice (split_newline fileContent) (s - 1) e)))"
| "queryFn read (Some m) = None"

definition displayFileContent ::
  "('s \<Rightarrow> string) \<Rightarrow> (Mentionable \<Rightarrow> 's) \<Rightarrow> (TFile \<Rightarrow> string option) \<Rightarrow>
   string option \<Rightarrow> Mentionable list \<Rightarrow> string option" where
  "displayFileContent key ser read displayed ms =
     (let dm = displayedMentionable key ser displayed ms
      in case dm of
           None \<Rightarrow> None
         | Some m \<Rightarrow>
             if List.member [''file'', ''current-file'', ''block''] (mentionable_type m)
             then queryFn read dm
             else None)"

section \<open>Viewport adapter\<close>

text \<open>
  The code that adapts the chat container to the on-screen keyboard is the last
  statement of the file (lines 369 to 447): a call of \<open>useEffect\<close> that stands after
  \<open>export default ChatUserInput\<close>, at the top level of the module and not in the body
  of the component (which ends at line 291). Two things follow, and the model keeps both.
  The call is made when the module is loaded, while no component renders. And the
  identifiers \<open>containerRef\<close> and \<open>contentEditableRef\<close>, declared inside the component
  at lines 70 and 71, are not bound where the callback is written: reading one of them
  throws a ReferenceError.

  The scope in which the callback is written is therefore a parameter of its model:
  \<open>containerRef\<close> is either \<open>Unbound\<close> (the top level of the module, as in this file) or
  \<open>Bound attached\<close>, a ref whose \<open>current\<close> is attached or null. A function of the model
  returns the document it leaves together with the error it threw, if any.

  Pixel values are IEEE doubles. Their type \<open>'n\<close> is left open, and the operations the
  code applies to them (subtraction, \<open>Math.abs\<close>, the comparison \<open><\<close>, and its
  literals) are the fields of \<open>double_ops\<close>. An inline length of the style is either
  unset (the empty string) or a number of pixels.

  The part of the document the callback touches is: the \<open>is-mobile\<close> class of the body,
  \<open>window.visualViewport\<close>, \<open>window.innerHeight\<close>, the \<open>.smtcmp-chat-container\<close>
  element that \<open>closest\<close> finds from the container (if any), whether
  \<open>handleVisualResize\<close> is registered for the resize and scroll events of the viewport,
  and the number of pending timeouts that will scroll the input into view.
\<close>

datatype js_error = TypeError | ReferenceError

datatype 'a binding = Unbound | Bound 'a

record 'n double_ops =
  dsub :: "'n \<Rightarrow> 'n \<Rightarrow> 'n"
  dabs :: "'n \<Rightarrow> 'n"
  dless :: "'n \<Rightarrow> 'n \<Rightarrow> bool"
  dnum :: "int \<Rightarrow> 'n"

datatype 'n css_length = Unset | Px 'n

record 'n chat_container =
  style_height :: "'n css_length"
  style_minHeight :: "'n css_length"
  clientHeight :: 'n
  boundingTop :: 'n

record 'n visual_viewport =
  height :: 'n
  offsetTop :: 'n

record 'n dom =
  isMobile :: bool
  visualViewport :: "'n visual_viewport option"
  innerHeight :: 'n
  chatContainer :: "'n chat_container option"
  resize_listener :: bool
  scroll_listener :: bool
  pending_timeouts :: nat

definition clear_style :: "'n chat_container \<Rightarrow> 'n chat_container" where
  "clear_style c = c\<lparr> style_height := Unset, style_minHeight := Unset \<rparr>"

text \<open>
  \<open>handleVisualResize\<close> (lines 374 to 427). Without a visual viewport the test of
  line 376 returns before it reads \<open>containerRef\<close>; with one, it reads
  \<open>containerRef.current\<close>, which throws where the identifier is not bound, and returns
  when the ref is null. The client height and the top of the bounding rectangle are read
  from the layout at each event; writing the style does not change them in the model.
\<close>

definition handleVisualResize ::
  "'n double_ops \<Rightarrow> bool binding \<Rightarrow> 'n dom \<Rightarrow> js_error option \<times> 'n dom" where
  "handleVisualResize ops containerRef d =
     (case visualViewport d of
        None \<Rightarrow> (None, d)
      | Some vv \<Rightarrow>
          (case containerRef of
             Unbound \<Rightarrow> (Some ReferenceError, d)
           | Bound attached \<Rightarrow>
               if \<not> attached then (None, d)
               else (case chatContainer d of
                       None \<Rightarrow> (None, d)
                     | Some c \<Rightarrow>
                         let viewportHeight = height vv;
                             elementTop = boundingTop c;
                             windowHeight = innerHeight d;
                             isKeyboardClosed =
                               dless ops (dabs ops (dsub ops viewportHeight windowHeight))
                                 (dnum ops 100)
                         in if isKeyboardClosed
                            then (None, d\<lparr> chatContainer := Some (clear_style c) \<rparr>)
                            else let newHeight = dsub ops viewportHeight elementTop;
                                     c' = (if dless ops (dnum ops 0) newHeight
                                              \<and> dless ops (dnum ops 5)
                                                    (dabs ops (dsub ops (clientHeight c) newHeight))
                                           then c\<lparr> style_height := Px newHeight,
                                                   style_minHeight := Px newHeight \<rparr>
                                           else c)
                                 in (None, d\<lparr> chatContainer := Some c',
                                              pending_timeouts := Suc (pending_timeouts d) \<rparr>))))"

text \<open>
  The callback passed to \<open>useEffect\<close> (lines 369 to 435). Off mobile it returns at once.
  On mobile it registers the handler with \<open>window.visualViewport.addEventListener\<close>,
  which throws a TypeError when there is no visual viewport, and calls the handler once.
\<close>

definition viewport_effect ::
  "'n double_ops \<Rightarrow> bool binding \<Rightarrow> 'n dom \<Rightarrow> js_error option \<times> 'n dom" where
  "viewport_effect ops containerRef d =
     (if \<not> isMobile d then (None, d)
      else (case visualViewport d of
              None \<Rightarrow> (Some TypeError, d)
            | Some vv \<Rightarrow>
                handleVisualResize ops containerRef
                  (d\<lparr> resize_listener := True, scroll_listener := True \<rparr>)))"

text \<open>
  The function the callback returns on mobile (lines 436 to 446): it unregisters the
  handler when there is a visual viewport, then reads \<open>containerRef.current\<close> to find
  the chat container and clear its inline height.
\<close>

definition viewport_cleanup :: "bool binding \<Rightarrow> 'n dom \<Rightarrow> js_error option \<times> 'n dom" where
  "viewport_cleanup containerRef d =
     (let d1 = (case visualViewport d of
                  None \<Rightarrow> d
                | Some vv \<Rightarrow> d\<lparr> resize_listener := False, scroll_listener := False \<rparr>)
      in case containerRef of
           Unbound \<Rightarrow> (Some ReferenceError, d1)
         | Bound attached \<Rightarrow>
             if \<not> attached then (None, d1)
             else (case chatContainer d1 of
                     None \<Rightarrow> (None, d1)
                   | Some c \<Rightarrow> (None, d1\<lparr> chatContainer := Some (clear_style c) \<rparr>)))"

text \<open>
  A viewport event reaches the handler when the handler is registered for it.
\<close>

datatype viewport_event = ResizeEvent | ScrollEvent

fun dispatch ::
  "'n double_ops \<Rightarrow> bool binding \<Rightarrow> viewport_event \<Rightarrow> 'n dom \<Rightarrow> js_error option \<times> 'n dom" where
  "dispatch ops containerRef ResizeEvent d =
     (if resize_listener d then handleVisualResize ops containerRef d else (None, d))"
| "dispatch ops containerRef ScrollEvent d =
     (if scroll_listener d then handleVisualResize ops containerRef d else (None, d))"

text \<open>
  \<open>useEffect\<close> is React's: called while a component renders, it records the callback
  as an effect of that component, to be run after the component is mounted; called while
  no component renders, it throws (an invalid hook call) and records nothing. The
  callback is not run by the call itself in either case.
\<close>

datatype hook_caller = ModuleLevel | ComponentRender

definition useEffect :: "hook_caller \<Rightarrow> 'e \<Rightarrow> 'e list \<Rightarrow> js_error + 'e list" where
  "useEffect caller effect effects =
     (case caller of
        ModuleLevel \<Rightarrow> Inl TypeError
      | ComponentRender \<Rightarrow> Inr (effects @ [effect]))"

text \<open>
  Loading the module evaluates the statement of line 369: the call of \<open>useEffect\<close> at
  the top level, with the callback written in the scope of the module. The document is
  as it was before, whatever the call answers.
\<close>

definition module_level_useEffect ::
  "'n double_ops \<Rightarrow> js_error + ('n dom \<Rightarrow> js_error option \<times> 'n dom) list" where
  "module_level_useEffect ops = useEffect ModuleLevel (viewport_effect ops Unbound) []"

definition import_module :: "'n double_ops \<Rightarrow> 'n dom \<Rightarrow> js_error option \<times> 'n dom" where
  "import_module ops d =
     (case module_level_useEffect ops of
        Inl e \<Rightarrow> (Some e, d)
      | Inr effects \<Rightarrow> (None, d))"




section \<open>The reconciler as the specification words it\<close>

text \<open>
  Step 1 of the specification: the removal keys are the keys of the destroyed nodes that
  no live node of the editor shares. Step 2: the staged additions are the created nodes
  whose key is not in the current list, each key staged once, at its first occurrence.
\<close>

definition spec_live :: "('s \<Rightarrow> string) \<Rightarrow> 's MentionNode list option \<Rightarrow> string \<Rightarrow> bool" where
  "spec_live key ed k =
     (case ed of None \<Rightarrow> False | Some nodes \<Rightarrow> list_ex (\<lambda>n. key (getMentionable n) = k) nodes)"

definition spec_removal_keys ::
  "('s \<Rightarrow> string) \<Rightarrow> 's MentionNode list option \<Rightarrow> 's Mutation list \<Rightarrow> string list" where
  "spec_removal_keys key ed mutations =
     map (\<lambda>mu. key (getMentionable (node mu)))
       (filter (\<lambda>mu. mutation mu = Destroyed \<and> \<not> spec_live key ed (key (getMentionable (node mu))))
          mutations)"

fun first_by_key :: "('s \<Rightarrow> string) \<Rightarrow> 's list \<Rightarrow> 's list" where
  "first_by_key key [] = []"
| "first_by_key key (x # xs) = x # first_by_key key (filter (\<lambda>y. key y \<noteq> key x) xs)"

definition spec_created :: "('s \<Rightarrow> string) \<Rightarrow> (Mentionable \<Rightarrow> 's) \<Rightarrow> Mentionable list \<Rightarrow> 's Mutation list \<Rightarrow> 's list" where
  "spec_created key ser ms mutations =
     filter (\<lambda>s. \<not> list_ex (\<lambda>m. key (ser m) = key s) ms)
       (map (\<lambda>mu. getMentionable (node mu)) (filter (\<lambda>mu. mutation mu = Created) mutations))"

definition spec_staged_additions ::
  "('s \<Rightarrow> string) \<Rightarrow> (Mentionable \<Rightarrow> 's) \<Rightarrow> Mentionable list \<Rightarrow> 's Mutation list \<Rightarrow> 's list" where
  "spec_staged_additions key ser ms mutations = first_by_key key (spec_created key ser ms mutations)"

section \<open>An instance of the serialization helpers\<close>

text \<open>
  Modelled from the spec: \<open>getMentionableKey\<close>, \<open>serializeMentionable\<close> and
  \<open>deserializeMentionable\<close> are not part of the sources at hand. The specification
  says that serialization strips the live file handles to a stable descriptor and that
  the key is a deterministic function of the serialized form. The instance below is
  used to run the handlers on concrete inputs: a file handle is serialized to its path,
  deserialization resolves a path among the paths of a vault and fails on an unknown
  one, and the key spells out the serialized form.
\<close>

datatype SerializedMentionable =
    SerializedFile "string option"
  | SerializedCurrentFile "string option"
  | SerializedBlock string int int
  | SerializedImage MentionableImage
  | SerializedOther string

fun example_serialize :: "Mentionable \<Rightarrow> SerializedMentionable" where
  "example_serialize (MentionableFile f) = SerializedFile (map_option path f)"
| "example_serialize (MentionableCurrentFile f) = SerializedCurrentFile (map_option path f)"
| "example_serialize (MentionableBlock f s e) = SerializedBlock (path f) s e"
| "example_serialize (MentionableImg i) = SerializedImage i"
| "example_serialize (MentionableOther t) = SerializedOther t"

fun example_resolve :: "string list \<Rightarrow> string \<Rightarrow> TFile option" where
  "example_resolve vault p = (if List.member vault p then Some (TFile p) else None)"

fun example_deserialize :: "string list \<Rightarrow> SerializedMentionable \<Rightarrow> Mentionable option" where
  "example_deserialize vault (SerializedFile None) = None"
| "example_deserialize vault (SerializedFile (Some p)) =
     (case example_resolve vault p of None \<Rightarrow> None | Some f \<Rightarrow> Some (MentionableFile (Some f)))"
| "example_deserialize vault (SerializedCurrentFile None) = Some (MentionableCurrentFile None)"
| "example_deserialize vault (SerializedCurrentFile (Some p)) =
     (case example_resolve vault p of None \<Rightarrow> None | Some f \<Rightarrow> Some (MentionableCurrentFile (Some f)))"
| "example_deserialize vault (SerializedBlock p s e) =
     (case example_resolve vault p of None \<Rightarrow> None | Some f \<Rightarrow> Some (MentionableBlock f s e))"
| "example_deserialize vault (SerializedImage i) = Some (MentionableImg i)"
| "example_deserialize vault (SerializedOther t) = Some (MentionableOther t)"

fun example_lines :: "int \<Rightarrow> string" where
  "example_lines n = replicate (nat n) (CHR ''|'')"

fun example_key :: "SerializedMentionable \<Rightarrow> string" where
  "example_key (SerializedFile f) = ''file:'' @ (case f of None \<Rightarrow> [] | Some p \<Rightarrow> p)"
| "example_key (SerializedCurrentFile f) =
     ''current-file:'' @ (case f of None \<Rightarrow> ''current'' | Some p \<Rightarrow> p)"
| "example_key (SerializedBlock p s e) =
     ''block:'' @ p @ '':'' @ example_lines s @ '':'' @ example_lines e"
| "example_key (SerializedImage i) = ''image:'' @ name i @ '':'' @ data i"
| "example_key (SerializedOther t) = t"

section \<open>The collected mutations\<close>

lemma nodeWithSameMentionable_None_iff:
  "nodeWithSameMentionable key ed k = None \<longleftrightarrow> \<not> spec_live key ed k"
  by (cases ed) (auto simp: nodeWithSameMentionable_def spec_live_def find_None_iff list_ex_iff)

lemma mutation_step_Destroyed:
  "mutation mu = Destroyed \<Longrightarrow>
   mutation_step key ser st (d, a) mu =
     (if spec_live key (editor st) (key (getMentionable (node mu))) then (d, a)
      else (d @ [key (getMentionable (node mu))], a))"
  by (simp add: mutation_step_def nodeWithSameMentionable_None_iff)

lemma mutation_step_Created:
  "mutation mu = Created \<Longrightarrow>
   mutation_step key ser st (d, a) mu =
     (if list_ex (\<lambda>m. key (ser m) = key (getMentionable (node mu))) (mentionables st)
         \<or> key (getMentionable (node mu)) \<in> key ` set a
      then (d, a) else (d, a @ [getMentionable (node mu)]))"
  by (auto simp: mutation_step_def list_ex_iff Let_def image_iff) metis

lemma mutation_step_Updated:
  "mutation mu = Updated \<Longrightarrow> mutation_step key ser st (d, a) mu = (d, a)"
  by (simp add: mutation_step_def)

lemma foldl_mutation_step:
  "foldl (mutation_step key ser st) (d, a) mutations =
     (d @ spec_removal_keys key (editor st) mutations,
      a @ first_by_key key
            (filter (\<lambda>s. key s \<notin> key ` set a) (spec_created key ser (mentionables st) mutations)))"
proof (induction mutations arbitrary: d a)
  case Nil
  show ?case by (simp add: spec_removal_keys_def spec_created_def)
next
  case (Cons mu mutations)
  show ?case
  proof (cases "mutation mu")
    case Created
    show ?thesis
      using Created
      by (simp add: mutation_step_Created Cons.IH spec_removal_keys_def spec_created_def conj_ac)
  next
    case Updated
    then show ?thesis
      by (simp add: mutation_step_Updated Cons.IH spec_removal_keys_def spec_created_def)
  next
    case Destroyed
    then show ?thesis
      by (simp add: mutation_step_Destroyed Cons.IH spec_removal_keys_def spec_created_def)
  qed
qed

lemma collect_mutations_eq:
  "collect_mutations key ser st mutations =
     (spec_removal_keys key (editor st) mutations,
      spec_staged_additions key ser (mentionables st) mutations)"
  by (simp add: collect_mutations_def foldl_mutation_step spec_staged_additions_def)

lemma set_first_by_key: "set (first_by_key key xs) \<subseteq> set xs"
proof (induction key xs rule: first_by_key.induct)
  case (1 key)
  show ?case by simp
next
  case (2 key x xs)
  then show ?case by auto
qed

lemma distinct_first_by_key: "distinct (map key (first_by_key key xs))"
proof (induction key xs rule: first_by_key.induct)
  case (1 key)
  show ?case by simp
next
  case (2 key x xs)
  have "key x \<notin> key ` set (first_by_key key (filter (\<lambda>y. key y \<noteq> key x) xs))"
    using set_first_by_key [of key "filter (\<lambda>y. key y \<noteq> key x) xs"] by auto
  with 2 show ?case by simp
qed

lemma staged_not_in_list:
  assumes "s \<in> set (spec_staged_additions key ser ms mutations)"
  shows "key s \<notin> (\<lambda>m. key (ser m)) ` set ms"
proof -
  from assms have "s \<in> set (spec_created key ser ms mutations)"
    using set_first_by_key [of key "spec_created key ser ms mutations"]
    by (auto simp: spec_staged_additions_def)
  then show ?thesis
    by (auto simp: spec_created_def list_ex_iff)
qed

lemma distinct_staged: "distinct (map key (spec_staged_additions key ser ms mutations))"
  by (simp add: spec_staged_additions_def distinct_first_by_key)

lemma mentionables_handleMentionNodeMutation:
  "mentionables (handleMentionNodeMutation key ser deser st mutations) =
     filter (\<lambda>m. key (ser m) \<notin> set (spec_removal_keys key (editor st) mutations)) (mentionables st)
     @ List.map_filter deser (spec_staged_additions key ser (mentionables st) mutations)"
  by (simp add: handleMentionNodeMutation_def collect_mutations_eq Let_def)

lemma displayed_handleMentionNodeMutation:
  "displayedMentionableKey (handleMentionNodeMutation key ser deser st mutations) =
     (if spec_staged_additions key ser (mentionables st) mutations \<noteq> []
      then Some (key (last (spec_staged_additions key ser (mentionables st) mutations)))
      else displayedMentionableKey st)"
  by (simp add: handleMentionNodeMutation_def collect_mutations_eq Let_def)

lemma live_not_removed:
  assumes "editor st = Some nodes" and "n \<in> set nodes" and "key (getMentionable n) = k"
  shows "k \<notin> set (spec_removal_keys key (editor st) mutations)"
  using assms by (auto simp: spec_removal_keys_def spec_live_def list_ex_iff)

section \<open>Facts used by several claims\<close>

lemma keys_map_filter_deser:
  assumes "\<forall>s m. deser s = Some m \<longrightarrow> key (ser m) = key s"
  shows "map (\<lambda>m. key (ser m)) (List.map_filter deser xs) = map key (filter (\<lambda>s. deser s \<noteq> None) xs)"
  using assms by (induction xs) (auto simp: List.map_filter_simps split: option.splits)

lemma example_roundtrip:
  "example_deserialize vault s = Some m \<Longrightarrow> example_key (example_serialize m) = example_key s"
  by (induction vault s rule: example_deserialize.induct) (auto split: if_splits)

lemma mentionables_handleCreateImageMentionables:
  "mentionables (handleCreateImageMentionables key ser st imgs) =
     mentionables st @ map MentionableImg
       (filter (\<lambda>i. key (ser (MentionableImg i)) \<notin> (\<lambda>m. key (ser m)) ` set (mentionables st)) imgs)"
proof -
  have eq: "(\<lambda>m. \<not> list_ex (\<lambda>mentionable. key (ser mentionable) = key (ser (MentionableImg m)))
                    (mentionables st))
            = (\<lambda>i. key (ser (MentionableImg i)) \<notin> (\<lambda>m. key (ser m)) ` set (mentionables st))"
    by (rule ext) (force simp: list_ex_iff image_iff)
  show ?thesis
    by (simp add: handleCreateImageMentionables_def Let_def eq)
qed

lemma handleCreateImageMentionables_unchanged:
  assumes "\<forall>i \<in> set imgs. key (ser (MentionableImg i)) \<in> (\<lambda>m. key (ser m)) ` set (mentionables st)"
  shows "handleCreateImageMentionables key ser st imgs = st"
proof -
  have "filter (\<lambda>m. \<not> list_ex (\<lambda>mentionable. key (ser mentionable) = key (ser (MentionableImg m)))
                        (mentionables st)) imgs = []"
    using assms by (force simp: filter_empty_conv list_ex_iff image_iff)
  then show ?thesis
    by (simp add: handleCreateImageMentionables_def)
qed

lemma slice_lines:
  assumes "1 \<le> s" and "s \<le> e"
  shows "slice xs (s - 1) e = map (\<lambda>i. xs ! nat (i - 1)) [s..min e (int (length xs))]"
proof (rule nth_equalityI)
  show len: "length (slice xs (s - 1) e) = length (map (\<lambda>i. xs ! nat (i - 1)) [s..min e (int (length xs))])"
    using assms by (auto simp: slice_def Let_def min_def)
  fix i assume "i < length (slice xs (s - 1) e)"
  then have i: "i < length [s..min e (int (length xs))]" using len by simp
  then have "int i < min e (int (length xs)) - s + 1" by simp
  then show "slice xs (s - 1) e ! i = map (\<lambda>i. xs ! nat (i - 1)) [s..min e (int (length xs))] ! i"
    using assms i by (auto simp: slice_def Let_def min_def nat_add_distrib nat_diff_distrib)
qed

lemma split_newline_not_Nil: "split_newline cs \<noteq> []"
  by (induction cs) (auto split: list.splits)

lemma displayFileContent_block:
  assumes "displayedMentionable key ser displayed ms = Some (MentionableBlock f s e)"
    and "read f = Some content"
  shows "displayFileContent key ser read displayed ms =
           Some (join_newline (slice (split_newline content) (s - 1) e))"
  using assms by (simp add: displayFileContent_def)

section \<open>C1: last reference wins\<close>

text \<open>
  Claim C1. Whatever the batch of mutations, when a mention node whose mentionable has
  key \<open>k\<close> exists in the editor state that \<open>handleMentionNodeMutation\<close> reads, the
  key \<open>k\<close> is not collected for removal, and every entry of the list with key \<open>k\<close>
  is in the resulting list. This holds in particular for a batch that destroys one node
  with key \<open>k\<close> and creates another.
\<close>

theorem C1_last_reference_wins:
  assumes "editor st = Some nodes"
    and "n \<in> set nodes"
    and "key (getMentionable n) = k"
  shows "\<not> List.member (fst (collect_mutations key ser st mutations)) k
         \<and> (\<forall>m \<in> set (mentionables st). key (ser m) = k \<longrightarrow>
              m \<in> set (mentionables (handleMentionNodeMutation key ser deser st mutations)))"
proof -
  have "k \<notin> set (spec_removal_keys key (editor st) mutations)"
    using assms by (rule live_not_removed)
  then show ?thesis
    by (auto simp: collect_mutations_eq mentionables_handleMentionNodeMutation)
qed

text \<open>
  The list holds the file a.md, the editor holds one node for a.md, and the batch
  destroys a node for a.md and creates one: the file stays in the list.
\<close>

theorem C1_last_reference_wins_witness:
  "(let a = SerializedFile (Some ''a.md'');
        st = \<lparr> mentionables = [MentionableFile (Some (TFile ''a.md''))],
               displayedMentionableKey = None,
               editor = Some [MentionNode a] \<rparr>;
        batch = [Mutation Destroyed (MentionNode a), Mutation Created (MentionNode a)]
    in editor st = Some [MentionNode a]
       \<and> MentionNode a \<in> set [MentionNode a]
       \<and> example_key (getMentionable (MentionNode a)) = ''file:a.md''
       \<and> example_key (example_serialize (MentionableFile (Some (TFile ''a.md'')))) = ''file:a.md''
       \<and> MentionableFile (Some (TFile ''a.md''))
            \<in> set (mentionables (handleMentionNodeMutation example_key example_serialize
                       (example_deserialize [''a.md'']) st batch)))"
proof -
  let ?a = "SerializedFile (Some ''a.md'')"
  let ?st = "\<lparr> mentionables = [MentionableFile (Some (TFile ''a.md''))],
               displayedMentionableKey = None,
               editor = Some [MentionNode ?a] \<rparr>"
  have h1: "editor ?st = Some [MentionNode ?a]" by simp
  have h2: "MentionNode ?a \<in> set [MentionNode ?a]" by simp
  have h3: "example_key (getMentionable (MentionNode ?a)) = ''file:a.md''" by simp
  from C1_last_reference_wins [where key = example_key and ser = example_serialize
      and deser = "example_deserialize [''a.md'']"
      and mutations = "[Mutation Destroyed (MentionNode ?a), Mutation Created (MentionNode ?a)]",
      OF h1 h2 h3]
  show ?thesis by (simp add: Let_def)
qed

section \<open>C2: uniqueness of the keys\<close>

text \<open>
  The three operations that replace the list, on a list with pairwise distinct keys.
  A deletion keeps the keys distinct. A batch of mutations keeps them distinct when a
  deserialized mentionable has the key of its serialized form. An upload of images keeps
  them distinct when the uploaded images have pairwise distinct keys: the images are
  compared with the list, and not with each other.
\<close>

lemma handleMentionNodeMutation_distinct:
  assumes dist: "distinct (map (\<lambda>m. key (ser m)) (mentionables st))"
    and rt: "\<forall>s m. deser s = Some m \<longrightarrow> key (ser m) = key s"
  shows "distinct (map (\<lambda>m. key (ser m))
           (mentionables (handleMentionNodeMutation key ser deser st mutations)))"
proof -
  let ?staged = "spec_staged_additions key ser (mentionables st) mutations"
  let ?kept = "filter (\<lambda>m. key (ser m) \<notin> set (spec_removal_keys key (editor st) mutations))
                 (mentionables st)"
  have d1: "distinct (map (\<lambda>m. key (ser m)) ?kept)"
    using dist by (rule distinct_map_filter)
  have d2: "distinct (map key (filter (\<lambda>s. deser s \<noteq> None) ?staged))"
    using distinct_staged by (rule distinct_map_filter)
  have d3: "(\<lambda>m. key (ser m)) ` set ?kept \<inter> key ` set (filter (\<lambda>s. deser s \<noteq> None) ?staged) = {}"
  proof -
    have "k \<notin> (\<lambda>m. key (ser m)) ` set (mentionables st)" if "k \<in> key ` set ?staged" for k
    proof -
      from that obtain s where "s \<in> set ?staged" and "k = key s" by auto
      then show ?thesis
        using staged_not_in_list [of s key ser "mentionables st" mutations] by simp
    qed
    then show ?thesis by auto
  qed
  show ?thesis
    using d1 d2 d3
    by (simp add: mentionables_handleMentionNodeMutation keys_map_filter_deser [OF rt])
qed

lemma handleMentionableDelete_distinct:
  assumes "distinct (map (\<lambda>m. key (ser m)) (mentionables st))"
  shows "distinct (map (\<lambda>m. key (ser m)) (mentionables (handleMentionableDelete key ser st d)))"
  using assms by (simp add: handleMentionableDelete_def Let_def distinct_map_filter)

lemma handleCreateImageMentionables_distinct:
  assumes "distinct (map (\<lambda>m. key (ser m)) (mentionables st))"
    and "distinct (map (\<lambda>i. key (ser (MentionableImg i))) imgs)"
  shows "distinct (map (\<lambda>m. key (ser m))
           (mentionables (handleCreateImageMentionables key ser st imgs)))"
proof -
  let ?new = "filter (\<lambda>i. key (ser (MentionableImg i)) \<notin> (\<lambda>m. key (ser m)) ` set (mentionables st)) imgs"
  have "distinct (map (\<lambda>i. key (ser (MentionableImg i))) ?new)"
    using assms(2) by (rule distinct_map_filter)
  moreover have "(\<lambda>m. key (ser m)) ` set (mentionables st)
                   \<inter> (\<lambda>i. key (ser (MentionableImg i))) ` set ?new = {}"
  proof -
    have "k \<notin> (\<lambda>m. key (ser m)) ` set (mentionables st)"
      if "k \<in> (\<lambda>i. key (ser (MentionableImg i))) ` set ?new" for k
    proof -
      from that obtain i where "i \<in> set ?new" and "k = key (ser (MentionableImg i))" by auto
      then show ?thesis by simp
    qed
    then show ?thesis by blast
  qed
  ultimately show ?thesis
    using assms(1)
    by (simp add: mentionables_handleCreateImageMentionables comp_def image_image)
qed

text \<open>
  Claim C2, at an upload that holds the same image twice. The list is empty, so its keys
  are distinct; \<open>handleCreateImageMentionables\<close> appends both copies, and the resulting
  list has the same key twice. \<open>handleMentionNodeMutation\<close> compares a created node
  with the additions already staged in the batch; the upload has no such comparison.
\<close>

theorem C2_duplicate_image_keys:
  "(let img = MentionableImage ''a.png'' ''AAAA'';
        st = \<lparr> mentionables = [], displayedMentionableKey = None,
               editor = (None :: SerializedMentionable MentionNode list option) \<rparr>;
        st' = handleCreateImageMentionables example_key example_serialize st [img, img]
    in distinct (map (\<lambda>m. example_key (example_serialize m)) (mentionables st))
       \<and> mentionables st' = [MentionableImg img, MentionableImg img]
       \<and> \<not> distinct (map (\<lambda>m. example_key (example_serialize m)) (mentionables st')))"
  by (simp add: handleCreateImageMentionables_def Let_def)

section \<open>C3: the result of the reconciler\<close>

text \<open>
  Claim C3. The list after a batch is the current list without the entries whose key
  is a removal key, followed by the staged additions that deserialize; and when an
  addition was staged, the displayed key is the key of the last staged addition. The
  removal keys and the staged additions are the ones of the specification's steps 1
  and 2.
\<close>

theorem C3_reconciler_result:
  "mentionables (handleMentionNodeMutation key ser deser st mutations) =
     filter (\<lambda>m. key (ser m) \<notin> set (spec_removal_keys key (editor st) mutations)) (mentionables st)
     @ List.map_filter deser (spec_staged_additions key ser (mentionables st) mutations)
   \<and> (spec_staged_additions key ser (mentionables st) mutations \<noteq> [] \<longrightarrow>
        displayedMentionableKey (handleMentionNodeMutation key ser deser st mutations) =
          Some (key (last (spec_staged_additions key ser (mentionables st) mutations))))"
  by (simp add: mentionables_handleMentionNodeMutation displayed_handleMentionNodeMutation)

text \<open>
  The example of the specification: the list is [FileA] and the batch creates FileB;
  the result is [FileA, FileB] and FileB is displayed.
\<close>

theorem C3_reconciler_result_witness:
  "(let fileA = MentionableFile (Some (TFile ''a.md''));
        fileB = MentionableFile (Some (TFile ''b.md''));
        st = \<lparr> mentionables = [fileA], displayedMentionableKey = None,
               editor = Some [MentionNode (example_serialize fileB)] \<rparr>;
        batch = [Mutation Created (MentionNode (example_serialize fileB))];
        st' = handleMentionNodeMutation example_key example_serialize
                (example_deserialize [''a.md'', ''b.md'']) st batch
    in spec_staged_additions example_key example_serialize [fileA] batch = [example_serialize fileB]
       \<and> mentionables st' = [fileA, fileB]
       \<and> displayedMentionableKey st' = Some (example_key (example_serialize fileB)))"
  using C3_reconciler_result [of example_key example_serialize "example_deserialize [''a.md'', ''b.md'']"
      "\<lparr> mentionables = [MentionableFile (Some (TFile ''a.md''))], displayedMentionableKey = None,
         editor = Some [MentionNode (example_serialize (MentionableFile (Some (TFile ''b.md''))))] \<rparr>"
      "[Mutation Created (MentionNode (example_serialize (MentionableFile (Some (TFile ''b.md'')))))]"]
  by (simp add: Let_def spec_staged_additions_def spec_created_def spec_removal_keys_def
      List.map_filter_def)

section \<open>C4: deletion\<close>

text \<open>
  Claim C4. \<open>handleMentionableDelete\<close> keeps, in order, exactly the entries of the
  list whose key differs from the key of the deleted mentionable, and, when there is an
  editor, keeps exactly the mention nodes whose key differs from it: no entry and no
  node with that key is left.
\<close>

theorem C4_delete_two_sided:
  "mentionables (handleMentionableDelete key ser st d) =
     filter (\<lambda>m. key (ser m) \<noteq> key (ser d)) (mentionables st)
   \<and> (\<forall>m \<in> set (mentionables (handleMentionableDelete key ser st d)). key (ser m) \<noteq> key (ser d))
   \<and> (\<forall>nodes. editor st = Some nodes \<longrightarrow>
        editor (handleMentionableDelete key ser st d) =
          Some (filter (\<lambda>n. key (getMentionable n) \<noteq> key (ser d)) nodes))
   \<and> (\<forall>nodes'. editor (handleMentionableDelete key ser st d) = Some nodes' \<longrightarrow>
        (\<forall>n \<in> set nodes'. key (getMentionable n) \<noteq> key (ser d)))
   \<and> (editor st = None \<longrightarrow> editor (handleMentionableDelete key ser st d) = None)"
  by (auto simp: handleMentionableDelete_def Let_def split: option.splits)

text \<open>
  The list holds a.md and b.md, the editor holds two nodes for a.md and one for b.md;
  deleting a.md leaves b.md in the list and its node in the editor.
\<close>

theorem C4_delete_two_sided_witness:
  "(let fileA = MentionableFile (Some (TFile ''a.md''));
        fileB = MentionableFile (Some (TFile ''b.md''));
        a = MentionNode (example_serialize fileA);
        b = MentionNode (example_serialize fileB);
        st = \<lparr> mentionables = [fileA, fileB], displayedMentionableKey = None,
               editor = Some [a, b, a] \<rparr>;
        st' = handleMentionableDelete example_key example_serialize st fileA
    in mentionables st' = [fileB] \<and> editor st' = Some [b])"
  using C4_delete_two_sided [of example_key example_serialize
      "\<lparr> mentionables = [MentionableFile (Some (TFile ''a.md'')), MentionableFile (Some (TFile ''b.md''))],
         displayedMentionableKey = None,
         editor = Some [MentionNode (example_serialize (MentionableFile (Some (TFile ''a.md'')))),
                        MentionNode (example_serialize (MentionableFile (Some (TFile ''b.md'')))),
                        MentionNode (example_serialize (MentionableFile (Some (TFile ''a.md''))))] \<rparr>"
      "MentionableFile (Some (TFile ''a.md''))"]
  by (simp add: Let_def)

section \<open>C5: upload of images\<close>

text \<open>
  Claim C5. \<open>handleCreateImageMentionables\<close> appends exactly the uploaded images whose
  key is not in the current list; when there is such an image, the displayed key becomes
  the key of the last of them; when every uploaded image has a key of the list, the
  state is unchanged; and uploading the same images a second time changes nothing.
\<close>

theorem C5_idempotent_image_upload:
  "mentionables (handleCreateImageMentionables key ser st imgs) =
     mentionables st @ map MentionableImg
       (filter (\<lambda>i. key (ser (MentionableImg i)) \<notin> (\<lambda>m. key (ser m)) ` set (mentionables st)) imgs)
   \<and> (filter (\<lambda>i. key (ser (MentionableImg i)) \<notin> (\<lambda>m. key (ser m)) ` set (mentionables st)) imgs \<noteq> [] \<longrightarrow>
        displayedMentionableKey (handleCreateImageMentionables key ser st imgs) =
          Some (key (ser (MentionableImg (last
            (filter (\<lambda>i. key (ser (MentionableImg i)) \<notin> (\<lambda>m. key (ser m)) ` set (mentionables st)) imgs))))))
   \<and> ((\<forall>i \<in> set imgs. key (ser (MentionableImg i)) \<in> (\<lambda>m. key (ser m)) ` set (mentionables st)) \<longrightarrow>
        handleCreateImageMentionables key ser st imgs = st)
   \<and> handleCreateImageMentionables key ser (handleCreateImageMentionables key ser st imgs) imgs =
       handleCreateImageMentionables key ser st imgs"
proof -
  let ?new = "filter (\<lambda>i. key (ser (MentionableImg i)) \<notin> (\<lambda>m. key (ser m)) ` set (mentionables st)) imgs"
  have eq: "filter (\<lambda>m. \<not> list_ex (\<lambda>mentionable. key (ser mentionable) = key (ser (MentionableImg m)))
                        (mentionables st)) imgs = ?new"
    by (rule filter_cong) (force simp: list_ex_iff image_iff)+
  have disp: "?new \<noteq> [] \<longrightarrow>
        displayedMentionableKey (handleCreateImageMentionables key ser st imgs) =
          Some (key (ser (MentionableImg (last ?new))))"
    by (simp add: handleCreateImageMentionables_def eq Let_def)
  have again: "handleCreateImageMentionables key ser (handleCreateImageMentionables key ser st imgs) imgs =
       handleCreateImageMentionables key ser st imgs"
  proof (rule handleCreateImageMentionables_unchanged, rule ballI)
    fix i assume "i \<in> set imgs"
    then show "key (ser (MentionableImg i)) \<in>
        (\<lambda>m. key (ser m)) ` set (mentionables (handleCreateImageMentionables key ser st imgs))"
      by (cases "key (ser (MentionableImg i)) \<in> (\<lambda>m. key (ser m)) ` set (mentionables st)")
         (auto simp: mentionables_handleCreateImageMentionables image_iff)
  qed
  show ?thesis
    using disp again handleCreateImageMentionables_unchanged [of imgs key ser st]
    by (simp only: mentionables_handleCreateImageMentionables simp_thms) blast
qed

text \<open>
  The list holds old.png; uploading old.png and new.png appends new.png only and
  displays it, uploading old.png alone changes nothing, and so does uploading both
  again.
\<close>

theorem C5_idempotent_image_upload_witness:
  "(let old = MentionableImage ''old.png'' ''AAAA'';
        new = MentionableImage ''new.png'' ''BBBB'';
        st = \<lparr> mentionables = [MentionableImg old], displayedMentionableKey = None,
               editor = (None :: SerializedMentionable MentionNode list option) \<rparr>;
        st' = handleCreateImageMentionables example_key example_serialize st [old, new]
    in mentionables st' = [MentionableImg old, MentionableImg new]
       \<and> displayedMentionableKey st' = Some ''image:new.png:BBBB''
       \<and> handleCreateImageMentionables example_key example_serialize st [old] = st
       \<and> handleCreateImageMentionables example_key example_serialize st' [old, new] = st')"
  using C5_idempotent_image_upload [of example_key example_serialize
      "\<lparr> mentionables = [MentionableImg (MentionableImage ''old.png'' ''AAAA'')],
         displayedMentionableKey = None,
         editor = (None :: SerializedMentionable MentionNode list option) \<rparr>"
      "[MentionableImage ''old.png'' ''AAAA'', MentionableImage ''new.png'' ''BBBB'']"]
  by (simp add: Let_def handleCreateImageMentionables_def)

section \<open>C6: preview of a block\<close>

text \<open>
  Claim C6 as stated fails on a file that has fewer lines than the end line of the
  block: the content has two lines, the block records lines 3 to 5, and the slice is
  empty, not three lines long.
\<close>

theorem C6_short_file_counterexample:
  "(let content = ''a\<newline>b'';
        block = MentionableBlock (TFile ''x.md'') 3 5;
        displayed = Some (example_key (example_serialize block))
    in split_newline content = [''a'', ''b'']
       \<and> displayFileContent example_key example_serialize (\<lambda>f. Some content) displayed [block]
           = Some ''''
       \<and> length (slice (split_newline content) (3 - 1) 5) \<noteq> nat (5 - 3 + 1))"
  by (simp add: Let_def displayFileContent_def displayedMentionable_def slice_def)

text \<open>
  Claim C6, amended. For a displayed block with start line \<open>s\<close> and end line \<open>e\<close>,
  \<open>1 \<le> s \<le> e\<close>, whose file is read, the preview is the lines \<open>s\<close> to
  \<open>min e n\<close> of the content (counted from 1, \<open>n\<close> the number of lines), joined with
  newlines. When the content has at least \<open>e\<close> lines these are the lines \<open>s\<close> to \<open>e\<close>,
  and the slice has \<open>e - s + 1\<close> lines.
\<close>

theorem C6_block_preview_slice:
  assumes "displayedMentionable key ser displayed ms = Some (MentionableBlock f s e)"
    and "read f = Some content"
    and "1 \<le> s" and "s \<le> e"
  shows "displayFileContent key ser read displayed ms =
           Some (join_newline (map (\<lambda>i. split_newline content ! nat (i - 1))
                                 [s..min e (int (length (split_newline content)))]))
         \<and> (e \<le> int (length (split_newline content)) \<longrightarrow>
              displayFileContent key ser read displayed ms =
                Some (join_newline (map (\<lambda>i. split_newline content ! nat (i - 1)) [s..e]))
              \<and> length (slice (split_newline content) (s - 1) e) = nat (e - s + 1))"
proof -
  have a: "slice (split_newline content) (s - 1) e =
        map (\<lambda>i. split_newline content ! nat (i - 1)) [s..min e (int (length (split_newline content)))]"
    using assms(3,4) by (rule slice_lines)
  have b: "displayFileContent key ser read displayed ms =
           Some (join_newline (slice (split_newline content) (s - 1) e))"
    using assms(1,2) by (rule displayFileContent_block)
  show ?thesis
    using assms(3,4) by (auto simp: a b min_def)
qed

text \<open>
  The example of the specification: lines 3 to 5 of a content of six lines.
\<close>

theorem C6_block_preview_slice_witness:
  "(let content = ''l1\<newline>l2\<newline>l3\<newline>l4\<newline>l5\<newline>l6'';
        x = TFile ''x.md'';
        block = MentionableBlock x 3 5;
        displayed = Some (example_key (example_serialize block));
        ms = [MentionableFile (Some x), block]
    in displayedMentionable example_key example_serialize displayed ms = Some block
       \<and> (1::int) \<le> 3 \<and> (3::int) \<le> 5 \<and> 5 \<le> int (length (split_newline content))
       \<and> displayFileContent example_key example_serialize (\<lambda>f. Some content) displayed ms
           = Some ''l3\<newline>l4\<newline>l5''
       \<and> length (slice (split_newline content) (3 - 1) 5) = 3)"
proof -
  let ?content = "''l1\<newline>l2\<newline>l3\<newline>l4\<newline>l5\<newline>l6''"
  let ?x = "TFile ''x.md''"
  let ?block = "MentionableBlock ?x 3 5"
  let ?displayed = "Some (example_key (example_serialize ?block))"
  let ?ms = "[MentionableFile (Some ?x), ?block]"
  have h1: "displayedMentionable example_key example_serialize ?displayed ?ms = Some ?block"
    by (simp add: displayedMentionable_def)
  have h2: "(\<lambda>f. Some ?content) ?x = Some ?content" by simp
  have h3: "(1::int) \<le> 3" by simp
  have h4: "(3::int) \<le> 5" by simp
  have lines: "split_newline ?content = [''l1'', ''l2'', ''l3'', ''l4'', ''l5'', ''l6'']"
    by simp
  have upto: "[3..5] = [3, 4, 5::int]"
    by (simp add: upto.simps)
  from C6_block_preview_slice [OF h1 h2 h3 h4]
  have "displayFileContent example_key example_serialize (\<lambda>f. Some ?content) ?displayed ?ms
           = Some ''l3\<newline>l4\<newline>l5''
        \<and> length (slice (split_newline ?content) (3 - 1) 5) = 3"
    unfolding lines by (simp add: upto)
  with h1 lines show ?thesis
    by (simp add: Let_def)
qed

section \<open>C7: click on a badge\<close>

text \<open>
  Claim C7 as stated fails for a mentionable without a file: a current-file mentionable
  whose file is null, already displayed, is of an opening type and has the displayed
  key, and the click sets the displayed key instead of opening a file.
\<close>

theorem C7_null_file_counterexample:
  "mentionable_type (MentionableCurrentFile None) = ''current-file''
   \<and> Some (example_key (example_serialize (MentionableCurrentFile None))) = Some ''current-file:current''
   \<and> badge_onClick example_key example_serialize (Some ''current-file:current'')
        (MentionableCurrentFile None)
       = SetDisplayedMentionableKey ''current-file:current''"
  by (simp add: badge_onClick_def)

text \<open>
  Claim C7, amended. A click opens the file (with the start line for a block, without a
  line otherwise) when the type is file, current-file or block, the mentionable has a
  file, and its key is the displayed key; in every other case the click sets the key of
  the mentionable as the displayed key.
\<close>

theorem C7_badge_click:
  "(\<forall>f. (mentionable_type m = ''current-file'' \<or> mentionable_type m = ''file''
          \<or> mentionable_type m = ''block'')
         \<and> file_of m = Some f \<and> displayed = Some (key (ser m)) \<longrightarrow>
         badge_onClick key ser displayed m =
           OpenMarkdownFile (path f) (if mentionable_type m = ''block'' then startLine m else None))
   \<and> (\<not> ((mentionable_type m = ''current-file'' \<or> mentionable_type m = ''file''
            \<or> mentionable_type m = ''block'')
           \<and> file_of m \<noteq> None \<and> displayed = Some (key (ser m))) \<longrightarrow>
        badge_onClick key ser displayed m = SetDisplayedMentionableKey (key (ser m)))
   \<and> badge_onClick key ser (Some (key (ser (MentionableBlock tf s e)))) (MentionableBlock tf s e)
       = OpenMarkdownFile (path tf) (Some s)"
  by (auto simp: badge_onClick_def Let_def split: option.splits)

text \<open>
  The file a.md is displayed: a click on its badge opens it, a click on the badge of a
  block of a.md displays the block, and a second click on the block opens a.md at
  line 3.
\<close>

theorem C7_badge_click_witness:
  "(let a = TFile ''a.md'';
        fileA = MentionableFile (Some a);
        block = MentionableBlock a 3 5;
        keyA = example_key (example_serialize fileA)
    in badge_onClick example_key example_serialize (Some keyA) fileA = OpenMarkdownFile ''a.md'' None
       \<and> badge_onClick example_key example_serialize (Some keyA) block
           = SetDisplayedMentionableKey (example_key (example_serialize block))
       \<and> badge_onClick example_key example_serialize
            (Some (example_key (example_serialize block))) block
           = OpenMarkdownFile ''a.md'' (Some 3))"
  using C7_badge_click [of "MentionableFile (Some (TFile ''a.md''))"
      "Some (example_key (example_serialize (MentionableFile (Some (TFile ''a.md'')))))"
      example_key example_serialize "TFile ''a.md''" 3 5]
    C7_badge_click [of "MentionableBlock (TFile ''a.md'') 3 5"
      "Some (example_key (example_serialize (MentionableFile (Some (TFile ''a.md'')))))"
      example_key example_serialize "TFile ''a.md''" 3 5]
  by (simp add: Let_def)

section \<open>The viewport adapter in the file\<close>

text \<open>
  In the scope of the module the call of \<open>useEffect\<close> throws and records nothing,
  loading the module leaves the document as it was, an event reaches no handler while
  none is registered, and the handler, were it called, would throw at the first read of
  \<open>containerRef\<close> once there is a visual viewport.
\<close>

lemma useEffect_ModuleLevel: "useEffect ModuleLevel effect effects = Inl TypeError"
  by (simp add: useEffect_def)

lemma import_module_unchanged: "snd (import_module ops d) = d"
  by (simp add: import_module_def split: sum.splits)

lemma dispatch_unregistered:
  assumes "\<not> resize_listener d" and "\<not> scroll_listener d"
  shows "dispatch ops containerRef ev d = (None, d)"
  using assms by (cases ev) simp_all

lemma handleVisualResize_Unbound:
  "handleVisualResize ops Unbound d =
     (case visualViewport d of None \<Rightarrow> (None, d) | Some vv \<Rightarrow> (Some ReferenceError, d))"
  by (simp add: handleVisualResize_def split: option.splits)

text \<open>
  For comparison, the same callback with \<open>containerRef\<close> bound, as it would be inside
  the body of a component: the handler clears the inline height when the code's own
  test of a closed keyboard succeeds, and the cleanup clears it when the ref is still
  attached and leaves it when the ref is null. None of this is reached in the file,
  where the identifier is not bound and the callback is never run.
\<close>

lemma handleVisualResize_Bound_closed:
  assumes "visualViewport d = Some vv" and "chatContainer d = Some c"
    and "dless ops (dabs ops (dsub ops (height vv) (innerHeight d))) (dnum ops 100)"
  shows "handleVisualResize ops (Bound True) d = (None, d\<lparr> chatContainer := Some (clear_style c) \<rparr>)"
  using assms by (simp add: handleVisualResize_def Let_def)

lemma viewport_cleanup_Bound_attached:
  assumes "chatContainer d = Some c"
  shows "chatContainer (snd (viewport_cleanup (Bound True) d)) = Some (clear_style c)"
  using assms by (simp add: viewport_cleanup_def Let_def split: option.splits)

lemma viewport_cleanup_Bound_detached:
  "chatContainer (snd (viewport_cleanup (Bound False) d)) = chatContainer d"
  by (simp add: viewport_cleanup_def Let_def split: option.splits)

section \<open>C8: reset when the keyboard is closed\<close>

text \<open>
  Claim C8, on the file as it is. The module is loaded on mobile; the viewport is 760
  pixels high in a window of 800, so the keyboard counts as closed; the chat container
  carries an inline height and minimum height of 400 pixels. The call of \<open>useEffect\<close>
  at the top level throws and its callback is never run, so the handler is registered
  for no event: a resize or a scroll event of the viewport reaches no handler and the
  inline height stays. Called directly, the handler throws a ReferenceError at its
  first read of \<open>containerRef\<close> and clears nothing either.
\<close>

theorem C8_handler_never_installed:
  "(let c = \<lparr> style_height = Px 400, style_minHeight = Px 400,
              clientHeight = 400, boundingTop = (0::int) \<rparr>;
        d = \<lparr> isMobile = True, visualViewport = Some \<lparr> height = 760, offsetTop = 0 \<rparr>,
              innerHeight = 800, chatContainer = Some c,
              resize_listener = False, scroll_listener = False, pending_timeouts = 0 \<rparr>
    in module_level_useEffect ops = Inl TypeError
       \<and> import_module ops d = (Some TypeError, d)
       \<and> dispatch ops Unbound ResizeEvent d = (None, d)
       \<and> dispatch ops Unbound ScrollEvent d = (None, d)
       \<and> handleVisualResize ops Unbound d = (Some ReferenceError, d)
       \<and> chatContainer d = Some c
       \<and> style_height c = Px 400 \<and> style_minHeight c = Px 400)"
  by (simp add: Let_def module_level_useEffect_def import_module_def useEffect_def
      handleVisualResize_def)

section \<open>C9: cleanup of the viewport adapter\<close>


section \<open>C10: the displayed key after a failed deserialization\<close>

text \<open>
  Claim C10. When a batch stages an addition, the displayed key becomes the key of the
  last staged addition, taken from its serialized form. When that addition fails to
  deserialize, and a deserialized mentionable has the key of its serialized form, no
  entry of the resulting list has the displayed key.
\<close>

theorem C10_displayed_key_outlives_failure:
  assumes "snd (collect_mutations key ser st mutations) \<noteq> []"
  shows "displayedMentionableKey (handleMentionNodeMutation key ser deser st mutations) =
           Some (key (last (snd (collect_mutations key ser st mutations))))
         \<and> (deser (last (snd (collect_mutations key ser st mutations))) = None
              \<and> (\<forall>s m. deser s = Some m \<longrightarrow> key (ser m) = key s) \<longrightarrow>
            key (last (snd (collect_mutations key ser st mutations)))
              \<notin> (\<lambda>m. key (ser m)) `
                  set (mentionables (handleMentionNodeMutation key ser deser st mutations)))"
proof -
  let ?staged = "spec_staged_additions key ser (mentionables st) mutations"
  let ?a = "last ?staged"
  from assms have ne: "?staged \<noteq> []" by (simp add: collect_mutations_eq)
  then have a_in: "?a \<in> set ?staged" by simp
  have disp: "displayedMentionableKey (handleMentionNodeMutation key ser deser st mutations)
              = Some (key ?a)"
    using ne by (simp add: displayed_handleMentionNodeMutation)
  have absent: "key ?a \<notin> (\<lambda>m. key (ser m)) `
                  set (mentionables (handleMentionNodeMutation key ser deser st mutations))"
    if fail: "deser ?a = None" and rt: "\<forall>s m. deser s = Some m \<longrightarrow> key (ser m) = key s"
  proof -
    have "key ?a \<notin> (\<lambda>m. key (ser m)) ` set (mentionables st)"
      using a_in by (rule staged_not_in_list)
    moreover have "key ?a \<notin> key ` set (filter (\<lambda>s. deser s \<noteq> None) ?staged)"
    proof
      assume "key ?a \<in> key ` set (filter (\<lambda>s. deser s \<noteq> None) ?staged)"
      then obtain s where s: "s \<in> set ?staged" "deser s \<noteq> None" "key s = key ?a" by auto
      have "inj_on key (set ?staged)"
        using distinct_staged [of key ser "mentionables st" mutations] by (simp add: distinct_map)
      with s a_in have "s = ?a" by (auto dest: inj_onD)
      with s fail show False by simp
    qed
    moreover have "set (map (\<lambda>m. key (ser m)) (List.map_filter deser ?staged))
                   = key ` set (filter (\<lambda>s. deser s \<noteq> None) ?staged)"
      by (simp only: keys_map_filter_deser [OF rt] set_map)
    moreover have "(\<lambda>m. key (ser m)) `
                     set (mentionables (handleMentionNodeMutation key ser deser st mutations))
                   \<subseteq> (\<lambda>m. key (ser m)) ` set (mentionables st)
                     \<union> set (map (\<lambda>m. key (ser m)) (List.map_filter deser ?staged))"
      by (auto simp: mentionables_handleMentionNodeMutation)
    ultimately show ?thesis by blast
  qed
  show ?thesis
    using disp absent by (simp add: collect_mutations_eq)
qed

text \<open>
  The batch creates a node for gone.md, which the vault does not hold: the list is
  unchanged and the displayed key is the key of gone.md, which no entry has.
\<close>

theorem C10_displayed_key_outlives_failure_witness:
  "(let fileA = MentionableFile (Some (TFile ''a.md''));
        gone = SerializedFile (Some ''gone.md'');
        st = \<lparr> mentionables = [fileA], displayedMentionableKey = None,
               editor = Some [MentionNode gone] \<rparr>;
        batch = [Mutation Created (MentionNode gone)];
        st' = handleMentionNodeMutation example_key example_serialize
                (example_deserialize [''a.md'']) st batch
    in snd (collect_mutations example_key example_serialize st batch) = [gone]
       \<and> example_deserialize [''a.md''] gone = None
       \<and> mentionables st' = [fileA]
       \<and> displayedMentionableKey st' = Some ''file:gone.md''
       \<and> ''file:gone.md'' \<notin> (\<lambda>m. example_key (example_serialize m)) ` set (mentionables st'))"
proof -
  let ?gone = "SerializedFile (Some ''gone.md'')"
  let ?st = "\<lparr> mentionables = [MentionableFile (Some (TFile ''a.md''))],
               displayedMentionableKey = None, editor = Some [MentionNode ?gone] \<rparr>"
  let ?batch = "[Mutation Created (MentionNode ?gone)]"
  have staged: "snd (collect_mutations example_key example_serialize ?st ?batch) = [?gone]"
    by (simp add: collect_mutations_def mutation_step_def Let_def)
  then have ne: "snd (collect_mutations example_key example_serialize ?st ?batch) \<noteq> []" by simp
  have rt: "\<forall>s m. example_deserialize [''a.md''] s = Some m \<longrightarrow>
              example_key (example_serialize m) = example_key s"
    using example_roundtrip by blast
  have fail: "example_deserialize [''a.md''] ?gone = None" by simp
  have res: "mentionables (handleMentionNodeMutation example_key example_serialize
                (example_deserialize [''a.md'']) ?st ?batch) = [MentionableFile (Some (TFile ''a.md''))]"
    by (simp add: handleMentionNodeMutation_def collect_mutations_def mutation_step_def Let_def
        List.map_filter_def)
  from C10_displayed_key_outlives_failure [OF ne, where deser = "example_deserialize [''a.md'']"]
    rt fail
  have "displayedMentionableKey (handleMentionNodeMutation example_key example_serialize
                (example_deserialize [''a.md'']) ?st ?batch) = Some ''file:gone.md''"
    by (simp only: staged last.simps example_key.simps option.case append.simps if_True simp_thms)
  with staged fail res show ?thesis
    by (simp add: Let_def)
qed

end
